theory Spec2Isabelle
  imports
    Main
    "HOL-Library.Word"
    "HOL-Library.Char_ord"
    "HOL-Library.List_Lexorder"
    "HOL-Library.Multiset"
    "HOL-Library.Sublist"
begin

unbundle bit_operations_syntax

section \<open>Python values and strings\<close>

text \<open>
  The analysed program is Python.  A Python \<open>str\<close> is modelled as a \<open>string\<close> whose
  characters are the code points 0..255; \<open>bytes\<close> are lists of 8-bit words.  Dynamic values
  (configuration data read from YAML, results exchanged as JSON) are values of one datatype.
\<close>

type_synonym byte = "8 word"
type_synonym u32 = "32 word"

datatype py =
    PNone
  | PBool bool
  | PInt int
  | PStr string
  | PList "py list"
  | PDict "(string \<times> py) list"

type_synonym pydict = "(string \<times> py) list"

text \<open>
  An exception raised inside a client library is known by its class and by \<open>str(e)\<close>.
  The class either derives from \<open>Exception\<close>, and is then what \<open>except Exception\<close>
  catches, or derives from \<open>BaseException\<close> only, as \<open>KeyboardInterrupt\<close>,
  \<open>SystemExit\<close> and \<open>GeneratorExit\<close> do.
\<close>

datatype exc_class = SubclassOfException string | OnlyBaseException string

datatype exn = Exn exc_class string

fun isinstance_Exception :: "exn \<Rightarrow> bool" where
  "isinstance_Exception (Exn (SubclassOfException name) msg) = True"
| "isinstance_Exception (Exn (OnlyBaseException name) msg) = False"

fun exn_str :: "exn \<Rightarrow> string" where
  "exn_str (Exn cls msg) = msg"

text \<open>What a function of the program raises: its own errors, or an exception passed on.\<close>

datatype error =
    AttributeError
  | ValueError string
  | NotImplementedError string
  | TypeError
  | UnicodeDecodeError
  | Propagated exn

text \<open>\<open>d.get(k, default)\<close> on a dictionary.\<close>

definition dict_get :: "pydict \<Rightarrow> string \<Rightarrow> py \<Rightarrow> py" where
  "dict_get d k dflt = (case map_of d k of None \<Rightarrow> dflt | Some v \<Rightarrow> v)"

text \<open>\<open>k in d\<close> on a dictionary.\<close>

definition dict_has :: "pydict \<Rightarrow> string \<Rightarrow> bool" where
  "dict_has d k = (map_of d k \<noteq> None)"

text \<open>\<open>d[k] = v\<close>: an existing key keeps its position, a new key is appended.\<close>

fun dict_set :: "pydict \<Rightarrow> string \<Rightarrow> py \<Rightarrow> pydict" where
  "dict_set [] k v = [(k, v)]"
| "dict_set ((k', v') # d) k v = (if k' = k then (k, v) # d else (k', v') # dict_set d k v)"

text \<open>Truth value of an object, as tested by \<open>if x\<close> and \<open>not x\<close>.\<close>

fun truthy :: "py \<Rightarrow> bool" where
  "truthy PNone = False"
| "truthy (PBool b) = b"
| "truthy (PInt n) = (n \<noteq> 0)"
| "truthy (PStr s) = (s \<noteq> [])"
| "truthy (PList xs) = (xs \<noteq> [])"
| "truthy (PDict d) = (d \<noteq> [])"

text \<open>\<open>v.get(k, default)\<close> on an arbitrary object: only dictionaries have the method.\<close>

fun py_get :: "py \<Rightarrow> string \<Rightarrow> py \<Rightarrow> error + py" where
  "py_get (PDict d) k dflt = Inr (dict_get d k dflt)"
| "py_get _ k dflt = Inl AttributeError"

text \<open>\<open>s.encode('utf-8')\<close>: one byte below U+0080, two bytes for U+0080..U+00FF.\<close>

definition utf8_char :: "char \<Rightarrow> byte list" where
  "utf8_char c =
     (if (of_char c :: nat) < 128 then [of_char c]
      else [0xC0 OR drop_bit 6 (of_char c), 0x80 OR ((of_char c) AND 0x3F)])"

definition utf8 :: "string \<Rightarrow> byte list" where
  "utf8 s = concat (map utf8_char s)"

text \<open>\<open>v.encode('utf-8')\<close> on an arbitrary object: only strings have the method.\<close>

fun py_encode :: "py \<Rightarrow> error + byte list" where
  "py_encode (PStr s) = Inr (utf8 s)"
| "py_encode _ = Inl AttributeError"

text \<open>\<open>s.lower()\<close> on code points below 256: A..Z and the Latin-1 capitals move by 32.\<close>

definition lower_char :: "char \<Rightarrow> char" where
  "lower_char c =
     (let n = (of_char c :: nat)
      in if (65 \<le> n \<and> n \<le> 90) \<or> (192 \<le> n \<and> n \<le> 222 \<and> n \<noteq> 215)
         then char_of (n + 32) else c)"

definition lower :: "string \<Rightarrow> string" where
  "lower s = map lower_char s"

text \<open>\<open>str.isspace\<close> on one code point below 256, and \<open>s.strip()\<close>.\<close>

definition isspace :: "char \<Rightarrow> bool" where
  "isspace c =
     (let n = (of_char c :: nat)
      in (9 \<le> n \<and> n \<le> 13) \<or> (28 \<le> n \<and> n \<le> 32) \<or> n = 133 \<or> n = 160)"

definition strip :: "string \<Rightarrow> string" where
  "strip s = rev (dropWhile isspace (rev (dropWhile isspace s)))"

text \<open>\<open>sub in s\<close> on strings.\<close>

fun str_in :: "string \<Rightarrow> string \<Rightarrow> bool" where
  "str_in sub [] = (sub = [])"
| "str_in sub (c # cs) = (prefix sub (c # cs) \<or> str_in sub cs)"

text \<open>\<open>sep.join(xs)\<close>.\<close>

fun join :: "string \<Rightarrow> string list \<Rightarrow> string" where
  "join sep [] = []"
| "join sep [x] = x"
| "join sep (x # y # ys) = x @ sep @ join sep (y # ys)"

text \<open>\<open>s.split('\n')\<close>: the pieces between line feeds.\<close>

fun split_lines :: "string \<Rightarrow> string list" where
  "split_lines [] = [[]]"
| "split_lines (c # cs) =
     (if c = CHR 0x0A then [] # split_lines cs
      else (case split_lines cs of l # ls \<Rightarrow> (c # l) # ls | [] \<Rightarrow> [[c]]))"

text \<open>Lower-case hexadecimal digits.\<close>

definition hex_digit :: "nat \<Rightarrow> char" where
  "hex_digit n = (if n < 10 then char_of (48 + n) else char_of (87 + n))"

definition hex_byte :: "byte \<Rightarrow> string" where
  "hex_byte b = [hex_digit (unat (drop_bit 4 b)), hex_digit (unat (b AND 0x0F))]"

section \<open>\<open>json.dumps\<close> of a list of strings\<close>

text \<open>
  With the default \<open>ensure_ascii=True\<close>, the quote and the backslash are escaped with a
  backslash, the control characters with a short name use it, and every other code point
  outside the printable ASCII range becomes a \<open>\uXXXX\<close> escape.  Items of a list are
  separated by a comma and a space.
\<close>

definition json_escape_char :: "char \<Rightarrow> string" where
  "json_escape_char c =
     (let n = (of_char c :: nat)
      in if n = 34 then [CHR 0x5C, CHR 0x22]
         else if n = 92 then [CHR 0x5C, CHR 0x5C]
         else if n = 10 then [CHR 0x5C, CHR ''n'']
         else if n = 13 then [CHR 0x5C, CHR ''r'']
         else if n = 9 then [CHR 0x5C, CHR ''t'']
         else if n = 8 then [CHR 0x5C, CHR ''b'']
         else if n = 12 then [CHR 0x5C, CHR ''f'']
         else if 32 \<le> n \<and> n \<le> 126 then [c]
         else [CHR 0x5C, CHR ''u'', CHR ''0'', CHR ''0''] @ hex_byte (of_char c))"

definition json_string :: "string \<Rightarrow> string" where
  "json_string s = [CHR 0x22] @ concat (map json_escape_char s) @ [CHR 0x22]"

definition json_dumps_strs :: "string list \<Rightarrow> string" where
  "json_dumps_strs xs = ''['' @ join '', '' (map json_string xs) @ '']''"

section \<open>SHA-256 (\<open>hashlib.sha256\<close>)\<close>

definition K256 :: "u32 list" where
  "K256 =
    [0x428A2F98, 0x71374491, 0xB5C0FBCF, 0xE9B5DBA5, 0x3956C25B, 0x59F111F1, 0x923F82A4, 0xAB1C5ED5,
     0xD807AA98, 0x12835B01, 0x243185BE, 0x550C7DC3, 0x72BE5D74, 0x80DEB1FE, 0x9BDC06A7, 0xC19BF174,
     0xE49B69C1, 0xEFBE4786, 0x0FC19DC6, 0x240CA1CC, 0x2DE92C6F, 0x4A7484AA, 0x5CB0A9DC, 0x76F988DA,
     0x983E5152, 0xA831C66D, 0xB00327C8, 0xBF597FC7, 0xC6E00BF3, 0xD5A79147, 0x06CA6351, 0x14292967,
     0x27B70A85, 0x2E1B2138, 0x4D2C6DFC, 0x53380D13, 0x650A7354, 0x766A0ABB, 0x81C2C92E, 0x92722C85,
     0xA2BFE8A1, 0xA81A664B, 0xC24B8B70, 0xC76C51A3, 0xD192E819, 0xD6990624, 0xF40E3585, 0x106AA070,
     0x19A4C116, 0x1E376C08, 0x2748774C, 0x34B0BCB5, 0x391C0CB3, 0x4ED8AA4A, 0x5B9CCA4F, 0x682E6FF3,
     0x748F82EE, 0x78A5636F, 0x84C87814, 0x8CC70208, 0x90BEFFFA, 0xA4506CEB, 0xBEF9A3F7, 0xC67178F2]"

definition H256 :: "u32 list" where
  "H256 =
    [0x6A09E667, 0xBB67AE85, 0x3C6EF372, 0xA54FF53A, 0x510E527F, 0x9B05688C, 0x1F83D9AB, 0x5BE0CD19]"

definition rotr :: "nat \<Rightarrow> u32 \<Rightarrow> u32" where
  "rotr n x = drop_bit n x OR push_bit (32 - n) x"

definition bsig0 :: "u32 \<Rightarrow> u32" where
  "bsig0 x = rotr 2 x XOR rotr 13 x XOR rotr 22 x"

definition bsig1 :: "u32 \<Rightarrow> u32" where
  "bsig1 x = rotr 6 x XOR rotr 11 x XOR rotr 25 x"

definition ssig0 :: "u32 \<Rightarrow> u32" where
  "ssig0 x = rotr 7 x XOR rotr 18 x XOR drop_bit 3 x"

definition ssig1 :: "u32 \<Rightarrow> u32" where
  "ssig1 x = rotr 17 x XOR rotr 19 x XOR drop_bit 10 x"

definition ch :: "u32 \<Rightarrow> u32 \<Rightarrow> u32 \<Rightarrow> u32" where
  "ch x y z = (x AND y) XOR (NOT x AND z)"

definition maj :: "u32 \<Rightarrow> u32 \<Rightarrow> u32 \<Rightarrow> u32" where
  "maj x y z = (x AND y) XOR (x AND z) XOR (y AND z)"

text \<open>The message with its padding: a one bit, zeros, and the bit length on 64 bits.\<close>

definition be64 :: "64 word \<Rightarrow> byte list" where
  "be64 n = map (\<lambda>i. ucast (drop_bit (8 * i) n)) (rev [0..<8])"

definition pad :: "byte list \<Rightarrow> byte list" where
  "pad m =
     m @ [0x80] @ replicate ((119 - length m mod 64) mod 64) 0 @ be64 (of_nat (8 * length m))"

fun be_words :: "byte list \<Rightarrow> u32 list" where
  "be_words (a # b # c # d # bs) =
     (push_bit 24 (ucast a) OR push_bit 16 (ucast b) OR push_bit 8 (ucast c) OR ucast d)
       # be_words bs"
| "be_words _ = []"

fun blocks :: "nat \<Rightarrow> 'a list \<Rightarrow> 'a list list" where
  "blocks 0 xs = []"
| "blocks (Suc n) xs = take 16 xs # blocks n (drop 16 xs)"

text \<open>The message schedule: sixteen words of the block, extended to sixty-four.\<close>

fun schedule :: "nat \<Rightarrow> u32 list \<Rightarrow> u32 list" where
  "schedule 0 w = w"
| "schedule (Suc n) w =
     (let l = length w
      in schedule n
           (w @ [ssig1 (w ! (l - 2)) + w ! (l - 7) + ssig0 (w ! (l - 15)) + w ! (l - 16)]))"

type_synonym sha_state = "u32 \<times> u32 \<times> u32 \<times> u32 \<times> u32 \<times> u32 \<times> u32 \<times> u32"

definition round256 :: "u32 \<times> u32 \<Rightarrow> sha_state \<Rightarrow> sha_state" where
  "round256 wk s =
     (case s of (a, b, c, d, e, f, g, h) \<Rightarrow>
        (let t1 = h + bsig1 e + ch e f g + snd wk + fst wk;
             t2 = bsig0 a + maj a b c
         in (t1 + t2, a, b, c, d + t1, e, f, g)))"

definition compress :: "sha_state \<Rightarrow> u32 list \<Rightarrow> sha_state" where
  "compress s block =
     (case s of (a, b, c, d, e, f, g, h) \<Rightarrow>
        (case fold round256 (zip (schedule 48 block) K256) s of
           (a', b', c', d', e', f', g', h') \<Rightarrow>
             (a + a', b + b', c + c', d + d', e + e', f + f', g + g', h + h')))"

definition sha256 :: "byte list \<Rightarrow> u32 list" where
  "sha256 m =
     (let ws = be_words (pad m)
      in case fold (\<lambda>blk s. compress s blk) (blocks (length ws div 16) ws)
                (H256 ! 0, H256 ! 1, H256 ! 2, H256 ! 3, H256 ! 4, H256 ! 5, H256 ! 6, H256 ! 7) of
           (a, b, c, d, e, f, g, h) \<Rightarrow> [a, b, c, d, e, f, g, h])"

definition hex_u32 :: "u32 \<Rightarrow> string" where
  "hex_u32 w = concat (map (\<lambda>i. hex_byte (ucast (drop_bit (8 * i) w))) (rev [0..<4]))"

text \<open>
  A hash object accumulates the bytes it is fed; the digest is taken over their
  concatenation, so feeding \<open>a\<close> and then \<open>b\<close> is feeding \<open>a + b\<close>.
\<close>

record hasher =
  fed :: "byte list"

definition sha256_new :: hasher where
  "sha256_new = \<lparr> fed = [] \<rparr>"

definition update :: "hasher \<Rightarrow> byte list \<Rightarrow> hasher" where
  "update h bs = h\<lparr> fed := fed h @ bs \<rparr>"

definition hexdigest :: "hasher \<Rightarrow> string" where
  "hexdigest h = concat (map hex_u32 (sha256 (fed h)))"

section \<open>Provider adapters (\<open>ai_analyzer.py\<close>)\<close>

text \<open>
  A call into a client library either raises an exception or returns.  The remote
  services are part of the environment: the reply to the \<open>n\<close>-th request is a function
  of \<open>n\<close> and of what is sent.
\<close>

datatype 'a outcome = Raises exn | Returns 'a

text \<open>
  The handler \<open>except Exception as e\<close> of both adapters: an instance of \<open>Exception\<close> is
  caught and becomes a dictionary with \<open>str(e)\<close> under \<open>error\<close>; any other exception
  is not caught and leaves \<open>analyze_code\<close>.
\<close>

definition except_Exception :: "string \<Rightarrow> exn \<Rightarrow> error + pydict" where
  "except_Exception provider_name e =
     (if isinstance_Exception e
      then Inr [(''provider'', PStr provider_name), (''error'', PStr (exn_str e))]
      else Inl (Propagated e))"

text \<open>
  \<open>generate_content\<close> returns a response whose \<open>text\<close> property may itself raise;
  \<open>chat.completions.create\<close> returns a response with a list of choices, of which only
  \<open>message.content\<close> is read.
\<close>

type_synonym gemini_reply = "string outcome"
type_synonym chat_reply = "py list"

text \<open>
  What a call does to its environment is recorded in a log, in order: the derivation of a
  key, the existence test, the read and the write of a cache file, and the invocation of
  the provider.
\<close>

datatype event = KeyDerived string | Exists string | Load string | Dump string | Invoke

text \<open>What opening and parsing an existing cache file does.\<close>

datatype cache_file =
    Json py      \<comment> \<open>\<open>json.load\<close> returns this value\<close>
  | NotJson      \<comment> \<open>decodes as text, \<open>json.load\<close> raises \<open>JSONDecodeError\<close>\<close>
  | NotUtf8      \<comment> \<open>the bytes are not UTF-8: reading raises \<open>UnicodeDecodeError\<close>\<close>
  | Unreadable   \<comment> \<open>\<open>open\<close> or \<open>read\<close> raises \<open>OSError\<close> (\<open>IOError\<close>)\<close>

record world =
  files :: "string \<rightharpoonup> cache_file"
  write_ok :: "string \<Rightarrow> bool"
  gemini_api :: "nat \<Rightarrow> string \<Rightarrow> gemini_reply outcome"
  openai_api :: "nat \<Rightarrow> py \<Rightarrow> (string \<times> string) list \<Rightarrow> chat_reply outcome"
  log :: "event list"

definition invocations :: "world \<Rightarrow> nat" where
  "invocations w = length (filter (\<lambda>e. e = Invoke) (log w))"

datatype provider = GeminiProvider py | OpenAICompatibleProvider py

definition nl :: string where
  "nl = [CHR 0x0A]"

text \<open>\<open>context or "Not available"\<close>.\<close>

definition context_or :: "string option \<Rightarrow> string \<Rightarrow> string" where
  "context_or c dflt = (case c of None \<Rightarrow> dflt | Some s \<Rightarrow> if s = [] then dflt else s)"

definition gemini_prompt :: "string \<Rightarrow> string option \<Rightarrow> string list \<Rightarrow> string" where
  "gemini_prompt diff context criteria =
     ''Analyze the following code changes based on these criteria: '' @ join '', '' criteria @ ''.'' @ nl
     @ ''Provide feedback on potential issues like bugs, style inconsistencies, security vulnerabilities, complexity, and maintainability.'' @ nl
     @ ''Focus particularly on: '' @ join '', '' criteria @ ''.'' @ nl @ nl
     @ ''Context (Original Code Snippet, if available):'' @ nl @ ''---'' @ nl
     @ context_or context ''Not available'' @ nl @ ''---'' @ nl @ nl
     @ ''Code Changes (Diff):'' @ nl @ ''---'' @ nl @ diff @ nl @ ''---'' @ nl @ nl
     @ ''Analysis:'' @ nl"

definition openai_system_prompt :: "string list \<Rightarrow> string" where
  "openai_system_prompt criteria =
     ''You are a strict code reviewer. Analyze the following code changes based on these criteria: ''
     @ join '', '' criteria @ ''.'' @ nl
     @ ''Provide detailed feedback on potential issues like bugs, style inconsistencies, security vulnerabilities, complexity, and maintainability.'' @ nl
     @ ''Focus particularly on: '' @ join '', '' criteria
     @ ''. Respond in a structured format (e.g., JSON or Markdown sections).''"

definition openai_user_prompt :: "string \<Rightarrow> string option \<Rightarrow> string" where
  "openai_user_prompt diff context =
     ''Context (Original Code Snippet, if available):'' @ nl @ ''---'' @ nl
     @ context_or context ''Not available'' @ nl @ ''---'' @ nl @ nl
     @ ''Code Changes (Diff):'' @ nl @ ''---'' @ nl @ diff @ nl @ ''---'' @ nl @ nl
     @ ''Please provide your analysis.''"

text \<open>
  \<open>GeminiProvider.analyze_code\<close>: the \<open>try\<close> block holds the request and the read of
  \<open>response.text\<close>; what either raises goes to the handler \<open>except Exception\<close>.
\<close>

definition gemini_analyze_code ::
  "py \<Rightarrow> (string \<Rightarrow> gemini_reply outcome) \<Rightarrow> string \<Rightarrow> string option \<Rightarrow> string list
     \<Rightarrow> error + pydict" where
  "gemini_analyze_code model_name generate_content diff context criteria =
     (case generate_content (gemini_prompt diff context criteria) of
        Raises e \<Rightarrow> except_Exception ''gemini'' e
      | Returns response \<Rightarrow>
          (case response of
             Raises e \<Rightarrow> except_Exception ''gemini'' e
           | Returns text \<Rightarrow>
               Inr [(''provider'', PStr ''gemini''), (''model'', model_name),
                    (''response_text'', PStr text)]))"

text \<open>
  \<open>OpenAICompatibleProvider.analyze_code\<close>: \<open>response.choices[0]\<close> raises
  \<open>IndexError\<close>, an instance of \<open>Exception\<close>, on an empty list, inside the same
  \<open>try\<close>.
\<close>

definition openai_analyze_code ::
  "py \<Rightarrow> (py \<Rightarrow> (string \<times> string) list \<Rightarrow> chat_reply outcome) \<Rightarrow> string \<Rightarrow> string option
     \<Rightarrow> string list \<Rightarrow> error + pydict" where
  "openai_analyze_code model_name create diff context criteria =
     (case create model_name
             [(''system'', openai_system_prompt criteria),
              (''user'', openai_user_prompt diff context)] of
        Raises e \<Rightarrow> except_Exception ''openai'' e
      | Returns choices \<Rightarrow>
          (case choices of
             [] \<Rightarrow> except_Exception ''openai''
                    (Exn (SubclassOfException ''IndexError'') ''list index out of range'')
           | analysis_content # _ \<Rightarrow>
               Inr [(''provider'', PStr ''openai''), (''model'', model_name),
                    (''response_text'', analysis_content)]))"

text \<open>The method call \<open>self.ai_provider.analyze_code(...)\<close>, dispatched on the class.\<close>

fun analyze_code ::
  "provider \<Rightarrow> world \<Rightarrow> string \<Rightarrow> string option \<Rightarrow> string list
     \<Rightarrow> (error + pydict) \<times> world" where
  "analyze_code (GeminiProvider m) w diff context criteria =
     (gemini_analyze_code m (gemini_api w (invocations w)) diff context criteria,
      w\<lparr> log := log w @ [Invoke] \<rparr>)"
| "analyze_code (OpenAICompatibleProvider m) w diff context criteria =
     (openai_analyze_code m (openai_api w (invocations w)) diff context criteria,
      w\<lparr> log := log w @ [Invoke] \<rparr>)"

subsection \<open>The factory \<open>get_ai_provider\<close>\<close>

definition and_then :: "error + 'a \<Rightarrow> ('a \<Rightarrow> error + 'b) \<Rightarrow> error + 'b" where
  "and_then m f = (case m of Inl e \<Rightarrow> Inl e | Inr v \<Rightarrow> f v)"

fun py_lower :: "py \<Rightarrow> error + string" where
  "py_lower (PStr s) = Inr (lower s)"
| "py_lower _ = Inl AttributeError"

text \<open>
  \<open>section.update({k: v for k, v in ai_config.items() if k in ['temperature', 'max_tokens']})\<close>:
  only dictionaries have the method.
\<close>

definition general_settings :: "pydict \<Rightarrow> pydict" where
  "general_settings ai_config =
     filter (\<lambda>kv. fst kv \<in> set [''temperature'', ''max_tokens'']) ai_config"

fun py_update :: "py \<Rightarrow> pydict \<Rightarrow> error + pydict" where
  "py_update (PDict d) new = Inr (fold (\<lambda>kv acc. dict_set acc (fst kv) (snd kv)) new d)"
| "py_update _ new = Inl AttributeError"

text \<open>\<open>GeminiProvider.__init__\<close>, with the client library installed.\<close>

definition GeminiProvider_init :: "pydict \<Rightarrow> error + provider" where
  "GeminiProvider_init config =
     (let model_name = dict_get config ''model'' (PStr ''gemini-pro'');
          api_key = dict_get config ''api_key'' PNone
      in if \<not> truthy api_key
         then Inl (ValueError ''Gemini API key is missing in the configuration.'')
         else Inr (GeminiProvider model_name))"

text \<open>
  \<open>OpenAICompatibleProvider.__init__\<close>, with the client library installed and the
  client constructor taken to succeed; a missing API key only prints a warning.  First,
  \<open>"openai.azure.com" in base_url\<close> on an arbitrary truthy object.
\<close>

fun py_contains :: "py \<Rightarrow> string \<Rightarrow> error + bool" where
  "py_contains (PStr s) sub = Inr (str_in sub s)"
| "py_contains (PList xs) sub = Inr (PStr sub \<in> set xs)"
| "py_contains (PDict d) sub = Inr (dict_has d sub)"
| "py_contains _ sub = Inl TypeError"

definition OpenAICompatibleProvider_init :: "pydict \<Rightarrow> error + provider" where
  "OpenAICompatibleProvider_init config =
     (let model_name = dict_get config ''model'' (PStr ''gpt-3.5-turbo'');
          base_url = dict_get config ''base_url'' PNone
      in if truthy base_url
         then and_then (py_contains base_url ''openai.azure.com'')
                (\<lambda>azure. if azure
                   then Inl (NotImplementedError
                          ''Azure OpenAI client initialization needs api_version and refinement.'')
                   else Inr (OpenAICompatibleProvider model_name))
         else Inr (OpenAICompatibleProvider model_name))"

text \<open>
  \<open>get_ai_provider\<close> updates the provider's section of \<open>ai_config\<close> in place; the
  configuration as it is afterwards is returned with the provider.
\<close>

definition get_ai_provider :: "pydict \<Rightarrow> error + (provider \<times> pydict)" where
  "get_ai_provider ai_config =
     and_then (py_lower (dict_get ai_config ''provider'' (PStr [])))
       (\<lambda>provider_name.
          if provider_name = ''gemini'' then
            (let gemini_config = dict_get ai_config ''gemini'' PNone
             in if \<not> truthy gemini_config
                then Inl (ValueError (''Missing '' @ [CHR 0x27] @ ''gemini'' @ [CHR 0x27]
                            @ '' configuration section for Gemini provider.''))
                else and_then (py_update gemini_config (general_settings ai_config))
                       (\<lambda>cfg. and_then (GeminiProvider_init cfg)
                          (\<lambda>p. Inr (p, dict_set ai_config ''gemini'' (PDict cfg)))))
          else if provider_name = ''openai'' \<or> provider_name = ''local_llm'' then
            (let openai_config = dict_get ai_config ''openai'' PNone
             in if \<not> truthy openai_config
                then Inl (ValueError (''Missing '' @ [CHR 0x27] @ ''openai'' @ [CHR 0x27]
                            @ '' configuration section for OpenAI/local_llm provider.''))
                else and_then (py_update openai_config (general_settings ai_config))
                       (\<lambda>cfg. and_then (OpenAICompatibleProvider_init cfg)
                          (\<lambda>p. Inr (p, dict_set ai_config ''openai'' (PDict cfg)))))
          else Inl (ValueError (''Unsupported AI provider specified: '' @ provider_name)))"

section \<open>The analyzer and its cache (\<open>AIAnalyzer\<close>)\<close>

record analyzer =
  ai_provider :: provider
  ai_config :: pydict
  cache_enabled :: bool
  cache_dir :: string

fun py_path :: "py \<Rightarrow> error + string" where
  "py_path (PStr s) = Inr s"
| "py_path _ = Inl TypeError"

text \<open>\<open>AIAnalyzer.__init__\<close>; creating the cache directory is taken to succeed.\<close>

definition AIAnalyzer_init :: "pydict \<Rightarrow> pydict \<Rightarrow> error + analyzer" where
  "AIAnalyzer_init ai_cfg cache_config =
     and_then (get_ai_provider ai_cfg)
       (\<lambda>pc. and_then (py_path (dict_get cache_config ''directory'' (PStr ''.code_argus_cache'')))
          (\<lambda>dir. Inr \<lparr> ai_provider = fst pc, ai_config = snd pc,
                      cache_enabled = truthy (dict_get cache_config ''enabled'' (PBool False)),
                      cache_dir = dir \<rparr>))"

text \<open>
  \<open>self.ai_config.get(provider_name, {}).get('model', '')\<close>: the section is looked up
  under the provider name as it is configured.
\<close>

fun configured_model :: "pydict \<Rightarrow> py \<Rightarrow> error + py" where
  "configured_model cfg (PStr name) = py_get (dict_get cfg name (PDict [])) ''model'' (PStr [])"
| "configured_model cfg _ = Inl TypeError"

text \<open>
  \<open>AIAnalyzer._generate_cache_key\<close>.  On strings, \<open>diff or ""\<close> is \<open>diff\<close>; an absent
  context is replaced by the empty string.
\<close>

definition generate_cache_key ::
  "pydict \<Rightarrow> string \<Rightarrow> string option \<Rightarrow> string list \<Rightarrow> error + string" where
  "generate_cache_key cfg diff context criteria =
     (let hasher = sha256_new;
          hasher = update hasher (utf8 diff);
          hasher = update hasher (utf8 (case context of None \<Rightarrow> [] | Some c \<Rightarrow> c));
          hasher = update hasher (utf8 (json_dumps_strs (sort criteria)))
      in and_then (py_encode (dict_get cfg ''provider'' (PStr [])))
           (\<lambda>provider_bytes.
              let hasher = update hasher provider_bytes;
                  provider_name = dict_get cfg ''provider'' (PStr [])
              in and_then (configured_model cfg provider_name)
                   (\<lambda>model_name. and_then (py_encode model_name)
                      (\<lambda>model_bytes.
                         let hasher = update hasher model_bytes
                         in and_then (py_encode (dict_get cfg ''strictness_level'' (PStr [])))
                              (\<lambda>strictness_bytes.
                                 Inr (hexdigest (update hasher strictness_bytes)))))))"

definition cache_path :: "string \<Rightarrow> string \<Rightarrow> string" where
  "cache_path dir cache_key = dir @ ''/'' @ cache_key @ ''.json''"

text \<open>
  The second half of \<open>AIAnalyzer.analyze\<close>, reached on a miss or with caching disabled:
  the provider is called, and a result without an \<open>error\<close> key is written to the cache
  file when there is one.  A write that raises \<open>IOError\<close> leaves the store as it was.
  The call of the provider stands in no \<open>try\<close> block: what it raises leaves \<open>analyze\<close>.
\<close>

definition call_provider ::
  "analyzer \<Rightarrow> world \<Rightarrow> string option \<Rightarrow> string \<Rightarrow> string option \<Rightarrow> string list
     \<Rightarrow> (error + py) \<times> world" where
  "call_provider a w cache_file diff context criteria =
     (case analyze_code (ai_provider a) w diff context criteria of
        (Inl raised, w1) \<Rightarrow> (Inl raised, w1)
      | (Inr result, w1) \<Rightarrow>
          (case cache_file of
             Some f \<Rightarrow>
               if cache_enabled a \<and> \<not> dict_has result ''error''
               then (let w2 = w1\<lparr> log := log w1 @ [Dump f] \<rparr>
                     in if write_ok w2 f
                        then (Inr (PDict result),
                              w2\<lparr> files := (files w2)(f \<mapsto> Json (PDict result)) \<rparr>)
                        else (Inr (PDict result), w2))
               else (Inr (PDict result), w1)
           | None \<Rightarrow> (Inr (PDict result), w1)))"

text \<open>
  \<open>AIAnalyzer.analyze\<close>.  Only \<open>JSONDecodeError\<close> and \<open>IOError\<close> are caught around the
  read of an existing cache file.
\<close>

definition analyze ::
  "analyzer \<Rightarrow> world \<Rightarrow> string \<Rightarrow> string option \<Rightarrow> string list \<Rightarrow> (error + py) \<times> world" where
  "analyze a w diff context criteria =
     (if cache_enabled a then
        (case generate_cache_key (ai_config a) diff context criteria of
           Inl e \<Rightarrow> (Inl e, w)
         | Inr cache_key \<Rightarrow>
             (let f = cache_path (cache_dir a) cache_key;
                  w1 = w\<lparr> log := log w @ [KeyDerived cache_key, Exists f] \<rparr>
              in case files w1 f of
                   None \<Rightarrow> call_provider a w1 (Some f) diff context criteria
                 | Some content \<Rightarrow>
                     (let w2 = w1\<lparr> log := log w1 @ [Load f] \<rparr>
                      in case content of
                           Json cached_data \<Rightarrow> (Inr cached_data, w2)
                         | NotJson \<Rightarrow> call_provider a w2 (Some f) diff context criteria
                         | Unreadable \<Rightarrow> call_provider a w2 (Some f) diff context criteria
                         | NotUtf8 \<Rightarrow> (Inl UnicodeDecodeError, w2))))
      else call_provider a w None diff context criteria)"

section \<open>The comparison engine (\<open>comparison_engine.py\<close>)\<close>

text \<open>
  The pattern \<open>^(?:--- a/|\+\+\+ b/)(.+?)(?:\t.*)?$\<close> in multi-line mode matches within one
  line: after either prefix, the lazy group takes one character and then as few as needed
  to stand before a tabulator or the end of the line.
\<close>

definition header_match :: "string \<Rightarrow> string option" where
  "header_match line =
     (if prefix ''--- a/'' line \<or> prefix ''+++ b/'' line
      then (case drop 6 line of
              [] \<Rightarrow> None
            | c # cs \<Rightarrow> Some (c # takeWhile (\<lambda>x. x \<noteq> CHR 0x09) cs))
      else None)"

text \<open>The loop over the matches, adding to the set \<open>filenames\<close>.\<close>

fun collect_filenames :: "string list \<Rightarrow> string list \<Rightarrow> string list" where
  "collect_filenames [] filenames = filenames"
| "collect_filenames (line # rest) filenames =
     (case header_match line of
        None \<Rightarrow> collect_filenames rest filenames
      | Some g \<Rightarrow>
          (let filename = strip g
           in if filename \<noteq> ''/dev/null''
              then collect_filenames rest (List.insert filename filenames)
              else collect_filenames rest filenames))"

definition parse_diff_filenames :: "string \<Rightarrow> string list" where
  "parse_diff_filenames diff_content = sort (collect_filenames (split_lines diff_content) [])"

text \<open>The local project reader, as the engine uses it.\<close>

record reader =
  directory_exists :: "string \<Rightarrow> bool"
  find_files :: "string \<Rightarrow> string list"
  read_file :: "string \<Rightarrow> string option"

record engine =
  ai_focus_areas :: "string list"
  test_indicators :: "string list option"
  test_dependency_markers :: "string list option"

fun any_directory :: "reader \<Rightarrow> string list \<Rightarrow> bool" where
  "any_directory r [] = False"
| "any_directory r (indicator # rest) =
     (if directory_exists r indicator then True else any_directory r rest)"

fun any_marker :: "string list \<Rightarrow> string \<Rightarrow> bool" where
  "any_marker [] content = False"
| "any_marker (dep # rest) content =
     (if str_in dep (lower content) then True else any_marker rest content)"

fun any_manifest :: "reader \<Rightarrow> string list \<Rightarrow> string list \<Rightarrow> bool" where
  "any_manifest r test_deps [] = False"
| "any_manifest r test_deps (req_file_path # rest) =
     (case read_file r req_file_path of
        None \<Rightarrow> any_manifest r test_deps rest
      | Some content \<Rightarrow>
          if content \<noteq> [] \<and> any_marker test_deps content then True
          else any_manifest r test_deps rest)"

text \<open>\<open>ComparisonEngine._check_test_coverage_needed\<close>.\<close>

definition check_test_coverage_needed :: "engine \<Rightarrow> reader \<Rightarrow> bool" where
  "check_test_coverage_needed e r =
     (if ''test_coverage'' \<notin> set (ai_focus_areas e) then False
      else
        (let indicators = (case test_indicators e of None \<Rightarrow> [''tests/'', ''test/''] | Some xs \<Rightarrow> xs)
         in if any_directory r indicators then True
            else
              (let test_deps = (case test_dependency_markers e of
                                  None \<Rightarrow> [''pytest'', ''unittest''] | Some xs \<Rightarrow> xs);
                   req_files = find_files r ''**/requirements*.txt''
                                 @ find_files r ''**/pyproject.toml''
               in any_manifest r test_deps req_files)))"

text \<open>
  Step 3 of \<open>ComparisonEngine.analyze_pull_request\<close>: the criteria handed to the
  analyzer.  \<open>list.remove\<close> removes the first occurrence.
\<close>

definition current_criteria :: "engine \<Rightarrow> reader \<Rightarrow> string list" where
  "current_criteria e r =
     (let include_test_analysis = check_test_coverage_needed e r;
          criteria = ai_focus_areas e
      in if \<not> include_test_analysis \<and> ''test_coverage'' \<in> set criteria
         then remove1 ''test_coverage'' criteria
         else criteria)"

section \<open>Example inputs\<close>

text \<open>Configurations, as \<open>yaml.safe_load\<close> returns their \<open>ai\<close> section.\<close>

definition cfg_openai :: pydict where
  "cfg_openai =
     [(''provider'', PStr ''openai''),
      (''openai'', PDict [(''model'', PStr ''gpt-4''), (''api_key'', PStr ''sk-test'')]),
      (''strictness_level'', PStr ''medium'')]"

definition cfg_llama :: pydict where
  "cfg_llama =
     [(''provider'', PStr ''local_llm''),
      (''openai'', PDict [(''model'', PStr ''llama2''), (''api_key'', PStr ''none''),
                          (''base_url'', PStr ''http://localhost:11434/v1'')]),
      (''strictness_level'', PStr ''medium'')]"

definition cfg_mistral :: pydict where
  "cfg_mistral =
     [(''provider'', PStr ''local_llm''),
      (''openai'', PDict [(''model'', PStr ''mistral''), (''api_key'', PStr ''none''),
                          (''base_url'', PStr ''http://localhost:11434/v1'')]),
      (''strictness_level'', PStr ''medium'')]"

text \<open>Two diffs: a short one, and the four header lines of the specification's example.\<close>

definition small_diff :: string where
  "small_diff = ''--- a/f'' @ nl @ ''+++ b/f'' @ nl"

definition example_diff :: string where
  "example_diff =
     ''--- a/src/x.py'' @ nl @ ''+++ b/src/x.py'' @ nl @ ''--- a/dev/null'' @ nl @ ''+++ b/new.py'' @ nl"

text \<open>
  The analyzer that \<open>AIAnalyzer(cfg_openai, {"enabled": True})\<close> builds, the same with
  caching disabled, and the cache file of the request \<open>(small_diff, None, ["security"])\<close>.
\<close>

definition analyzer_on :: analyzer where
  "analyzer_on =
     \<lparr> ai_provider = OpenAICompatibleProvider (PStr ''gpt-4''), ai_config = cfg_openai,
       cache_enabled = True, cache_dir = ''.code_argus_cache'' \<rparr>"

definition analyzer_off :: analyzer where
  "analyzer_off = analyzer_on\<lparr> cache_enabled := False \<rparr>"

definition example_key :: string where
  "example_key = ''658dcd2d8e2e23331c1b77e9595e070a7738624289112074688c5e733f234294''"

definition example_file :: string where
  "example_file = cache_path ''.code_argus_cache'' example_key"

text \<open>
  Exceptions: one that the client library raises when the service cannot be reached, one
  that a blocked response raises when its text is read, and the interrupt that the
  interpreter raises in whatever is running when the user presses Ctrl-C.
\<close>

definition connection_error :: exn where
  "connection_error = Exn (SubclassOfException ''APIConnectionError'') ''Connection error.''"


definition keyboard_interrupt :: exn where
  "keyboard_interrupt = Exn (OnlyBaseException ''KeyboardInterrupt'') []"

text \<open>
  Environments: an empty writable store with a service that answers; the same with a store
  that refuses writes; with a service that is down; with a request that is interrupted;
  with a cache file that is not UTF-8.
\<close>

definition world_ok :: world where
  "world_ok =
     \<lparr> files = Map.empty, write_ok = (\<lambda>f. True),
       gemini_api = (\<lambda>n prompt. Raises connection_error),
       openai_api = (\<lambda>n model messages. Returns [PStr ''looks fine'']),
       log = [] \<rparr>"

definition world_readonly :: world where
  "world_readonly = world_ok\<lparr> write_ok := (\<lambda>f. False) \<rparr>"

definition world_down :: world where
  "world_down = world_ok\<lparr> openai_api := (\<lambda>n model messages. Raises connection_error) \<rparr>"

definition world_interrupted :: world where
  "world_interrupted =
     world_ok\<lparr> gemini_api := (\<lambda>n prompt. Raises keyboard_interrupt),
               openai_api := (\<lambda>n model messages. Raises keyboard_interrupt) \<rparr>"







definition world_corrupt :: world where
  "world_corrupt = world_ok\<lparr> files := [example_file \<mapsto> NotUtf8] \<rparr>"

text \<open>
  A project without tests, and a configuration that lists \<open>test_coverage\<close> twice; a project
  with a \<open>tests/\<close> directory, and a configuration that lists it once.
\<close>

definition reader_bare :: reader where
  "reader_bare =
     \<lparr> directory_exists = (\<lambda>p. False), find_files = (\<lambda>pattern. []), read_file = (\<lambda>p. None) \<rparr>"

definition reader_tests :: reader where
  "reader_tests = reader_bare\<lparr> directory_exists := (\<lambda>p. p = ''tests/'') \<rparr>"

definition engine_twice :: engine where
  "engine_twice =
     \<lparr> ai_focus_areas = [''test_coverage'', ''security'', ''test_coverage''],
       test_indicators = None, test_dependency_markers = None \<rparr>"

definition engine_once :: engine where
  "engine_once =
     \<lparr> ai_focus_areas = [''security'', ''test_coverage''],
       test_indicators = None, test_dependency_markers = None \<rparr>"

section \<open>Facts about strings and sorting\<close>

lemma utf8_append: "utf8 (a @ b) = utf8 a @ utf8 b"
  by (simp add: utf8_def)

lemma sort_mset_cong: "mset xs = mset ys \<Longrightarrow> sort xs = sort (ys :: string list)"
  by (metis properties_for_sort mset_sort sorted_sort)

lemma str_in_iff: "str_in sub s \<longleftrightarrow> (\<exists>pre post. s = pre @ sub @ post)"
proof (induction s)
  case Nil
  then show ?case by auto
next
  case (Cons c cs)
  show ?case
  proof
    assume "str_in sub (c # cs)"
    then consider "prefix sub (c # cs)" | "str_in sub cs" by auto
    then show "\<exists>pre post. c # cs = pre @ sub @ post"
    proof cases
      case 1
      then obtain post where "c # cs = sub @ post" by (auto simp: prefix_def)
      then have "c # cs = [] @ sub @ post" by simp
      then show ?thesis by blast
    next
      case 2
      with Cons obtain pre post where "cs = pre @ sub @ post" by blast
      then have "c # cs = (c # pre) @ sub @ post" by simp
      then show ?thesis by blast
    qed
  next
    assume "\<exists>pre post. c # cs = pre @ sub @ post"
    then obtain pre post where e: "c # cs = pre @ sub @ post" by blast
    show "str_in sub (c # cs)"
    proof (cases pre)
      case Nil
      with e have "prefix sub (c # cs)" by (simp add: prefix_def)
      then show ?thesis by simp
    next
      case (Cons p ps)
      with e have "cs = ps @ sub @ post" by simp
      with Cons.IH have "str_in sub cs" by blast
      then show ?thesis by simp
    qed
  qed
qed

section \<open>The cache key\<close>

text \<open>
  When the three configuration values are strings, the key is the digest of six byte
  strings laid end to end, with nothing between them.
\<close>

lemma cache_key_value:
  assumes "dict_get cfg ''provider'' (PStr []) = PStr p"
    and "configured_model cfg (PStr p) = Inr (PStr m)"
    and "dict_get cfg ''strictness_level'' (PStr []) = PStr s"
  shows "generate_cache_key cfg d c cr
           = Inr (hexdigest \<lparr> fed = utf8 d @ utf8 (case c of None \<Rightarrow> [] | Some x \<Rightarrow> x)
                    @ utf8 (json_dumps_strs (sort cr)) @ utf8 p @ utf8 m @ utf8 s \<rparr>)"
  using assms
  by (simp add: generate_cache_key_def and_then_def update_def sha256_new_def)

lemma cache_key_openai:
  "generate_cache_key cfg_openai d c cr
     = Inr (hexdigest \<lparr> fed = utf8 d @ utf8 (case c of None \<Rightarrow> [] | Some x \<Rightarrow> x)
              @ utf8 (json_dumps_strs (sort cr)) @ utf8 ''openai'' @ utf8 ''gpt-4''
              @ utf8 ''medium'' \<rparr>)"
  by (rule cache_key_value) (simp_all add: cfg_openai_def dict_get_def)

text \<open>
  Claim C3: the cache key is a function of the diff, the context, the criteria, the
  provider name, the model name and the strictness level, and of nothing else; the order
  of the criteria does not matter, since they are sorted before they are hashed.  Two
  calls whose criteria are permutations of each other and whose configurations agree on
  the three values read by the derivation get the same key (or fail alike).
\<close>

theorem cache_key_deterministic:
  assumes "mset criteria = mset criteria'"
    and "dict_get cfg ''provider'' (PStr []) = dict_get cfg' ''provider'' (PStr [])"
    and "configured_model cfg (dict_get cfg ''provider'' (PStr []))
         = configured_model cfg' (dict_get cfg' ''provider'' (PStr []))"
    and "dict_get cfg ''strictness_level'' (PStr []) = dict_get cfg' ''strictness_level'' (PStr [])"
  shows "generate_cache_key cfg diff ctx criteria = generate_cache_key cfg' diff ctx criteria'"
  using assms sort_mset_cong [OF assms(1)] by (simp add: generate_cache_key_def)

theorem cache_key_deterministic_witness:
  "mset [''security'', ''complexity'', ''code_quality'']
     = mset [''code_quality'', ''security'', ''complexity'']
   \<and> generate_cache_key cfg_openai small_diff None [''security'', ''complexity'', ''code_quality'']
     = generate_cache_key cfg_openai small_diff None [''code_quality'', ''security'', ''complexity'']"
proof -
  have m: "mset [''security'', ''complexity'', ''code_quality'']
             = mset [''code_quality'', ''security'', ''complexity'']"
    by simp
  show ?thesis
    using m cache_key_deterministic [OF m refl refl refl, of cfg_openai small_diff None]
    by blast
qed

text \<open>
  Claim C10: the diff and the context enter the key only through their concatenation.
  Moving a suffix of the diff into the context leaves the key unchanged, and an absent
  context gives the key of the empty context.
\<close>

theorem cache_key_concatenation:
  "generate_cache_key cfg (d1 @ d2) (Some []) criteria = generate_cache_key cfg d1 (Some d2) criteria
   \<and> generate_cache_key cfg d1 None criteria = generate_cache_key cfg d1 (Some []) criteria"
  by (simp add: generate_cache_key_def update_def utf8_append utf8_def)

text \<open>
  Claim C4 asks that configurations which differ in the model name get different keys,
  also under the provider name \<open>local_llm\<close>.  The factory serves \<open>local_llm\<close> from the
  \<open>openai\<close> section, but the key derivation looks the model up in a section named
  \<open>local_llm\<close>, finds none and hashes the empty string: the two configurations below
  build providers for different models and share every key.
\<close>

theorem local_llm_model_not_in_key:
  "get_ai_provider cfg_llama = Inr (OpenAICompatibleProvider (PStr ''llama2''), cfg_llama)
   \<and> get_ai_provider cfg_mistral = Inr (OpenAICompatibleProvider (PStr ''mistral''), cfg_mistral)
   \<and> generate_cache_key cfg_llama diff ctx criteria
       = Inr (hexdigest \<lparr> fed = utf8 diff @ utf8 (case ctx of None \<Rightarrow> [] | Some x \<Rightarrow> x)
                @ utf8 (json_dumps_strs (sort criteria)) @ utf8 ''local_llm'' @ utf8 []
                @ utf8 ''medium'' \<rparr>)
   \<and> generate_cache_key cfg_llama diff ctx criteria
       = generate_cache_key cfg_mistral diff ctx criteria"
  by (simp add: get_ai_provider_def cfg_llama_def cfg_mistral_def dict_get_def and_then_def
      lower_def lower_char_def general_settings_def OpenAICompatibleProvider_init_def
      generate_cache_key_def update_def sha256_new_def)

section \<open>The provider adapters\<close>






section \<open>The analyzer\<close>

lemma analyze_code_world: "snd (analyze_code p w d c cr) = w\<lparr> log := log w @ [Invoke] \<rparr>"
  by (cases p) simp_all

lemma analyze_code_result_cong:
  "gemini_api w' = gemini_api w \<Longrightarrow> openai_api w' = openai_api w \<Longrightarrow> invocations w' = invocations w
   \<Longrightarrow> fst (analyze_code p w' d c cr) = fst (analyze_code p w d c cr)"
  by (cases p) simp_all

lemma analyze_code_result_log:
  "Invoke \<notin> set es
   \<Longrightarrow> fst (analyze_code p (w\<lparr> log := log w @ es \<rparr>) d c cr) = fst (analyze_code p w d c cr)"
  by (rule analyze_code_result_cong) (auto simp add: invocations_def filter_empty_conv)

lemma analyze_code_pair:
  "analyze_code p w d c cr = (fst (analyze_code p w d c cr), w\<lparr> log := log w @ [Invoke] \<rparr>)"
  using analyze_code_world [of p w d c cr] by (simp add: prod_eq_iff)

lemma call_provider_result:
  "fst (call_provider a w cf d c cr)
     = (case fst (analyze_code (ai_provider a) w d c cr) of
          Inl raised \<Rightarrow> Inl raised | Inr result \<Rightarrow> Inr (PDict result))"
  by (subst call_provider_def, subst analyze_code_pair)
     (simp add: Let_def split: sum.splits option.splits)

lemma call_provider_None:
  "call_provider a w None d c cr
     = (case fst (analyze_code (ai_provider a) w d c cr) of
          Inl raised \<Rightarrow> Inl raised | Inr result \<Rightarrow> Inr (PDict result),
        w\<lparr> log := log w @ [Invoke] \<rparr>)"
  by (subst call_provider_def, subst analyze_code_pair) (simp split: sum.splits)

lemma call_provider_raised:
  "fst (analyze_code (ai_provider a) w d c cr) = Inl x
   \<Longrightarrow> call_provider a w cf d c cr = (Inl x, w\<lparr> log := log w @ [Invoke] \<rparr>)"
  by (subst call_provider_def, subst analyze_code_pair) simp

lemma call_provider_failure:
  "fst (analyze_code (ai_provider a) w d c cr) = Inr res \<Longrightarrow> dict_has res ''error''
   \<Longrightarrow> call_provider a w cf d c cr = (Inr (PDict res), w\<lparr> log := log w @ [Invoke] \<rparr>)"
  by (subst call_provider_def, subst analyze_code_pair) (simp split: option.splits)

lemma call_provider_success:
  "fst (analyze_code (ai_provider a) w d c cr) = Inr res \<Longrightarrow> \<not> dict_has res ''error''
   \<Longrightarrow> cache_enabled a
   \<Longrightarrow> call_provider a w (Some f) d c cr
     = (Inr (PDict res),
        if write_ok w f
        then w\<lparr> log := log w @ [Invoke, Dump f], files := (files w)(f \<mapsto> Json (PDict res)) \<rparr>
        else w\<lparr> log := log w @ [Invoke, Dump f] \<rparr>)"
  by (subst call_provider_def, subst analyze_code_pair) (simp add: Let_def)

lemma call_provider_invocations:
  "invocations (snd (call_provider a w cf d c cr)) = Suc (invocations w)"
  by (subst call_provider_def, subst analyze_code_pair)
     (auto simp add: Let_def invocations_def split: sum.splits option.splits)

lemma call_provider_env:
  "gemini_api (snd (call_provider a w cf d c cr)) = gemini_api w"
  "openai_api (snd (call_provider a w cf d c cr)) = openai_api w"
  "write_ok (snd (call_provider a w cf d c cr)) = write_ok w"
  by (subst call_provider_def, subst analyze_code_pair,
      auto simp add: Let_def split: sum.splits option.splits)+

lemma call_provider_files:
  "files (snd (call_provider a w cf d c cr)) g \<noteq> files w g
   \<Longrightarrow> \<exists>res. files (snd (call_provider a w cf d c cr)) g = Some (Json (PDict res))
          \<and> \<not> dict_has res ''error''"
  by (subst call_provider_def, subst analyze_code_pair,
      subst (asm) call_provider_def, subst (asm) analyze_code_pair)
     (auto simp add: Let_def split: sum.splits option.splits if_splits)

lemma call_provider_failure_files:
  "fst (analyze_code (ai_provider a) w d c cr) = Inr res \<Longrightarrow> dict_has res ''error''
   \<Longrightarrow> files (snd (call_provider a w cf d c cr)) = files w"
  by (simp add: call_provider_failure)

lemma analyze_files:
  "files (snd (analyze a w d c cr)) g \<noteq> files w g
   \<Longrightarrow> \<exists>res. files (snd (analyze a w d c cr)) g = Some (Json (PDict res))
          \<and> \<not> dict_has res ''error''"
  using call_provider_files [of a _ _ d c cr g]
  by (fastforce simp add: analyze_def Let_def split: sum.splits option.splits cache_file.splits if_splits)

text \<open>
  A call that invokes the provider is a call of the second half of \<open>analyze\<close>; whether it
  is one depends on the store, and not on the log.
\<close>

lemma analyze_reaches_provider:
  assumes "invocations (snd (analyze a w d c cr)) = Suc (invocations w)"
  shows "\<exists>w' cf. analyze a w d c cr = call_provider a w' cf d c cr
           \<and> files w' = files w \<and> gemini_api w' = gemini_api w \<and> openai_api w' = openai_api w
           \<and> invocations w' = invocations w
           \<and> (\<forall>v. files v = files w \<longrightarrow>
                  (\<exists>v'. analyze a v d c cr = call_provider a v' cf d c cr
                        \<and> invocations v' = invocations v))"
proof (cases "cache_enabled a")
  case False
  then show ?thesis
    by (intro exI [of _ w] exI [of _ None]) (auto simp add: analyze_def)
next
  case True
  show ?thesis
  proof (cases "generate_cache_key (ai_config a) d c cr")
    case (Inl e)
    with True assms show ?thesis by (simp add: analyze_def)
  next
    case (Inr k)
    let ?f = "cache_path (cache_dir a) k"
    let ?w1 = "w\<lparr> log := log w @ [KeyDerived k, Exists ?f] \<rparr>"
    let ?w2 = "w\<lparr> log := log w @ [KeyDerived k, Exists ?f, Load ?f] \<rparr>"
    show ?thesis
    proof (cases "files w ?f")
      case None
      with True Inr show ?thesis
        by (intro exI [of _ ?w1] exI [of _ "Some ?f"])
           (auto simp add: analyze_def Let_def invocations_def)
    next
      case (Some content)
      show ?thesis
      proof (cases content)
        case (Json v)
        with True Inr Some assms show ?thesis
          by (simp add: analyze_def Let_def invocations_def)
      next
        case NotJson
        with True Inr Some show ?thesis
          by (intro exI [of _ ?w2] exI [of _ "Some ?f"])
             (auto simp add: analyze_def Let_def invocations_def)
      next
        case NotUtf8
        with True Inr Some assms show ?thesis
          by (simp add: analyze_def Let_def invocations_def)
      next
        case Unreadable
        with True Inr Some show ?thesis
          by (intro exI [of _ ?w2] exI [of _ "Some ?f"])
             (auto simp add: analyze_def Let_def invocations_def)
      qed
    qed
  qed
qed

text \<open>The example analyzer is the one the constructor builds.\<close>

lemma analyzer_on_constructed:
  "AIAnalyzer_init cfg_openai [(''enabled'', PBool True)] = Inr analyzer_on"
  by (simp add: AIAnalyzer_init_def get_ai_provider_def cfg_openai_def dict_get_def and_then_def
      lower_def lower_char_def general_settings_def OpenAICompatibleProvider_init_def
      analyzer_on_def)

text \<open>The call of the example analyzer against a service that is down.\<close>

lemma analyze_code_world_down:
  "fst (analyze_code (ai_provider analyzer_on) world_down small_diff None [''security''])
     = Inr [(''provider'', PStr ''openai''), (''error'', PStr ''Connection error.'')]"
  by (simp add: analyzer_on_def world_down_def world_ok_def openai_analyze_code_def
      except_Exception_def connection_error_def)

lemma analyze_world_down:
  "generate_cache_key cfg_openai small_diff None [''security''] = Inr k
   \<Longrightarrow> analyze analyzer_on world_down small_diff None [''security'']
     = (Inr (PDict [(''provider'', PStr ''openai''), (''error'', PStr ''Connection error.'')]),
        world_down\<lparr> log := [KeyDerived k, Exists (cache_path ''.code_argus_cache'' k), Invoke] \<rparr>)"
  by (simp add: analyze_def call_provider_def analyzer_on_def world_down_def world_ok_def
      Let_def openai_analyze_code_def except_Exception_def connection_error_def dict_has_def
      invocations_def)

text \<open>The same call, interrupted while the request is under way.\<close>

lemma analyze_code_world_interrupted:
  "fst (analyze_code (ai_provider analyzer_on) world_interrupted small_diff None [''security''])
     = Inl (Propagated keyboard_interrupt)"
  by (simp add: analyzer_on_def world_interrupted_def openai_analyze_code_def
      except_Exception_def keyboard_interrupt_def)

lemma analyze_world_interrupted:
  "generate_cache_key cfg_openai small_diff None [''security''] = Inr k
   \<Longrightarrow> analyze analyzer_on world_interrupted small_diff None [''security'']
     = (Inl (Propagated keyboard_interrupt),
        world_interrupted\<lparr> log := [KeyDerived k, Exists (cache_path ''.code_argus_cache'' k),
                                     Invoke] \<rparr>)"
  by (simp add: analyze_def call_provider_def analyzer_on_def world_interrupted_def world_ok_def
      Let_def openai_analyze_code_def except_Exception_def keyboard_interrupt_def
      invocations_def)

text \<open>The answer of the service in the other example environments.\<close>

lemma analyze_code_looks_fine:
  "openai_api w = openai_api world_ok
   \<Longrightarrow> fst (analyze_code (ai_provider analyzer_on) w small_diff None [''security''])
     = Inr [(''provider'', PStr ''openai''), (''model'', PStr ''gpt-4''),
            (''response_text'', PStr ''looks fine'')]"
  by (simp add: analyzer_on_def world_ok_def openai_analyze_code_def)

text \<open>
  Claim C5: with caching disabled, \<open>analyze\<close> returns what the provider returns (and
  raises what it raises), and the only effect is the one invocation of the provider: no
  key is derived (the call succeeds even where the derivation would raise), and the store
  is neither looked up, read nor written.
\<close>

theorem caching_disabled_bypass:
  assumes "\<not> cache_enabled a"
  shows "analyze a w diff ctx criteria
           = (case fst (analyze_code (ai_provider a) w diff ctx criteria) of
                Inl raised \<Rightarrow> Inl raised | Inr result \<Rightarrow> Inr (PDict result),
              w\<lparr> log := log w @ [Invoke] \<rparr>)"
  using assms by (simp add: analyze_def call_provider_None)

theorem caching_disabled_bypass_witness:
  "\<not> cache_enabled analyzer_off
   \<and> analyze analyzer_off world_ok small_diff None [''security'']
     = (Inr (PDict [(''provider'', PStr ''openai''), (''model'', PStr ''gpt-4''),
                    (''response_text'', PStr ''looks fine'')]),
        world_ok\<lparr> log := [Invoke] \<rparr>)"
proof -
  have off: "\<not> cache_enabled analyzer_off"
    by (simp add: analyzer_off_def)
  show ?thesis
    using off caching_disabled_bypass [OF off, of world_ok small_diff None "[''security'']"]
    by (simp add: analyzer_off_def analyzer_on_def world_ok_def openai_analyze_code_def)
qed

text \<open>
  Claim C2: a result with an \<open>error\<close> key is returned and never written.  Whatever a call
  changes in the store is an entry holding a result without an \<open>error\<close> key; and when a
  call invokes the provider and the provider returns a result with an \<open>error\<close> key,
  that result is returned, the store is left as it was, and the same call made again
  invokes the provider again.  Where the provider raises instead, the exception leaves
  \<open>analyze\<close> and the store is left as it was, too.
\<close>

theorem failure_not_cached:
  assumes run: "analyze a w diff ctx criteria = (r, w1)"
  shows "(\<forall>f. files w1 f \<noteq> files w f \<longrightarrow>
            (\<exists>stored. files w1 f = Some (Json (PDict stored)) \<and> \<not> dict_has stored ''error''))
         \<and> (invocations w1 = Suc (invocations w)
              \<and> fst (analyze_code (ai_provider a) w diff ctx criteria) = Inr res
              \<and> dict_has res ''error'' \<longrightarrow>
             r = Inr (PDict res)
             \<and> files w1 = files w
             \<and> invocations (snd (analyze a w1 diff ctx criteria)) = Suc (invocations w1))
         \<and> (invocations w1 = Suc (invocations w)
              \<and> fst (analyze_code (ai_provider a) w diff ctx criteria) = Inl x \<longrightarrow>
             r = Inl x \<and> files w1 = files w)"
proof (intro conjI allI impI)
  fix f assume "files w1 f \<noteq> files w f"
  then show "\<exists>stored. files w1 f = Some (Json (PDict stored)) \<and> \<not> dict_has stored ''error''"
    using analyze_files [of a w diff ctx criteria f] run by simp
next
  assume h: "invocations w1 = Suc (invocations w)
             \<and> fst (analyze_code (ai_provider a) w diff ctx criteria) = Inr res
             \<and> dict_has res ''error''"
  from h run have "invocations (snd (analyze a w diff ctx criteria)) = Suc (invocations w)"
    by simp
  from analyze_reaches_provider [OF this]
  obtain w' cf where w': "analyze a w diff ctx criteria = call_provider a w' cf diff ctx criteria"
      "files w' = files w" "gemini_api w' = gemini_api w" "openai_api w' = openai_api w"
      "invocations w' = invocations w"
    and again: "\<And>v. files v = files w \<Longrightarrow>
                  \<exists>v'. analyze a v diff ctx criteria = call_provider a v' cf diff ctx criteria
                        \<and> invocations v' = invocations v"
    by blast
  have "fst (analyze_code (ai_provider a) w' diff ctx criteria)
          = fst (analyze_code (ai_provider a) w diff ctx criteria)"
    using w' by (intro analyze_code_result_cong) simp_all
  with h have same: "fst (analyze_code (ai_provider a) w' diff ctx criteria) = Inr res"
    and fail: "dict_has res ''error''"
    by simp_all
  from run w' have r: "r = fst (call_provider a w' cf diff ctx criteria)"
    and w1: "w1 = snd (call_provider a w' cf diff ctx criteria)"
    by simp_all
  show "r = Inr (PDict res)"
    using r same by (simp add: call_provider_result)
  show files: "files w1 = files w"
    using w1 w'(2) call_provider_failure_files [OF same fail] by simp
  from again [OF files] obtain v' where
    "analyze a w1 diff ctx criteria = call_provider a v' cf diff ctx criteria"
    "invocations v' = invocations w1"
    by blast
  then show "invocations (snd (analyze a w1 diff ctx criteria)) = Suc (invocations w1)"
    by (simp add: call_provider_invocations)
next
  assume h: "invocations w1 = Suc (invocations w)
             \<and> fst (analyze_code (ai_provider a) w diff ctx criteria) = Inl x"
  from h run have "invocations (snd (analyze a w diff ctx criteria)) = Suc (invocations w)"
    by simp
  from analyze_reaches_provider [OF this]
  obtain w' cf where w': "analyze a w diff ctx criteria = call_provider a w' cf diff ctx criteria"
      "files w' = files w" "gemini_api w' = gemini_api w" "openai_api w' = openai_api w"
      "invocations w' = invocations w"
    by blast
  have "fst (analyze_code (ai_provider a) w' diff ctx criteria)
          = fst (analyze_code (ai_provider a) w diff ctx criteria)"
    using w' by (intro analyze_code_result_cong) simp_all
  with h have "fst (analyze_code (ai_provider a) w' diff ctx criteria) = Inl x"
    by simp
  from call_provider_raised [OF this, of cf] run w'(1)
  have "r = Inl x" and w1: "w1 = w'\<lparr> log := log w' @ [Invoke] \<rparr>"
    by simp_all
  then show "r = Inl x"
    by simp
  show "files w1 = files w"
    unfolding w1 using w'(2) by simp
qed

theorem failure_not_cached_witness:
  "invocations (snd (analyze analyzer_on world_down small_diff None [''security'']))
     = Suc (invocations world_down)
   \<and> fst (analyze_code (ai_provider analyzer_on) world_down small_diff None [''security''])
     = Inr [(''provider'', PStr ''openai''), (''error'', PStr ''Connection error.'')]
   \<and> dict_has [(''provider'', PStr ''openai''), (''error'', PStr ''Connection error.'')] ''error''
   \<and> fst (analyze analyzer_on world_down small_diff None [''security''])
     = Inr (PDict [(''provider'', PStr ''openai''), (''error'', PStr ''Connection error.'')])
   \<and> files (snd (analyze analyzer_on world_down small_diff None [''security''])) = Map.empty
   \<and> invocations (snd (analyze analyzer_on
                          (snd (analyze analyzer_on world_down small_diff None [''security'']))
                          small_diff None [''security''])) = 2
   \<and> invocations (snd (analyze analyzer_on world_interrupted small_diff None [''security'']))
     = Suc (invocations world_interrupted)
   \<and> fst (analyze_code (ai_provider analyzer_on) world_interrupted small_diff None [''security''])
     = Inl (Propagated keyboard_interrupt)
   \<and> fst (analyze analyzer_on world_interrupted small_diff None [''security''])
     = Inl (Propagated keyboard_interrupt)
   \<and> files (snd (analyze analyzer_on world_interrupted small_diff None [''security'']))
     = Map.empty"
proof -
  let ?run = "analyze analyzer_on world_down small_diff None [''security'']"
  let ?stop = "analyze analyzer_on world_interrupted small_diff None [''security'']"
  obtain k where k: "generate_cache_key cfg_openai small_diff None [''security''] = Inr k"
    using cache_key_openai by blast
  have run: "?run = (fst ?run, snd ?run)"
    by simp
  have inv: "invocations (snd ?run) = Suc (invocations world_down)"
    unfolding analyze_world_down [OF k]
    by (simp add: invocations_def world_down_def world_ok_def)
  have err: "dict_has [(''provider'', PStr ''openai''), (''error'', PStr ''Connection error.'')]
               ''error''"
    by (simp add: dict_has_def)
  have start: "invocations world_down = 0" "files world_down = Map.empty"
    by (simp_all add: invocations_def world_down_def world_ok_def)
  note t = failure_not_cached [OF run, where res = "[(''provider'', PStr ''openai''),
                                                     (''error'', PStr ''Connection error.'')]",
             THEN conjunct2, THEN conjunct1]
  from t inv analyze_code_world_down err start have failed:
    "fst ?run = Inr (PDict [(''provider'', PStr ''openai''), (''error'', PStr ''Connection error.'')])
     \<and> files (snd ?run) = Map.empty
     \<and> invocations (snd (analyze analyzer_on (snd ?run) small_diff None [''security''])) = 2"
    by (simp add: analyze_world_down [OF k])
  have stop: "?stop = (fst ?stop, snd ?stop)"
    by simp
  have inv': "invocations (snd ?stop) = Suc (invocations world_interrupted)"
    unfolding analyze_world_interrupted [OF k]
    by (simp add: invocations_def world_interrupted_def world_ok_def)
  have start': "files world_interrupted = Map.empty"
    by (simp add: world_interrupted_def world_ok_def)
  note u = failure_not_cached [OF stop, where x = "Propagated keyboard_interrupt",
             THEN conjunct2, THEN conjunct2, THEN mp,
             OF conjI [OF inv' analyze_code_world_interrupted], unfolded start']
  show ?thesis
    using inv analyze_code_world_down err failed inv' analyze_code_world_interrupted u
    by (simp only: simp_thms)
qed

text \<open>
  A hit: the stored value is returned as it is, after the key derivation, the lookup and
  the read; the provider is not invoked.
\<close>

lemma cache_hit_returns_stored:
  assumes "cache_enabled a"
    and "generate_cache_key (ai_config a) d c cr = Inr k"
    and "files w (cache_path (cache_dir a) k) = Some (Json v)"
  shows "analyze a w d c cr
           = (Inr v, w\<lparr> log := log w @ [KeyDerived k, Exists (cache_path (cache_dir a) k),
                                        Load (cache_path (cache_dir a) k)] \<rparr>)"
  using assms by (simp add: analyze_def Let_def)

text \<open>
  An entry that does not parse as JSON, or that cannot be opened or read, is a miss: the
  provider is invoked once and what it returns is returned.
\<close>

lemma unparsable_entry_is_miss:
  assumes "cache_enabled a"
    and "generate_cache_key (ai_config a) d c cr = Inr k"
    and "files w (cache_path (cache_dir a) k) = Some NotJson
         \<or> files w (cache_path (cache_dir a) k) = Some Unreadable"
  shows "fst (analyze a w d c cr)
           = (case fst (analyze_code (ai_provider a) w d c cr) of
                Inl raised \<Rightarrow> Inl raised | Inr result \<Rightarrow> Inr (PDict result))
         \<and> invocations (snd (analyze a w d c cr)) = Suc (invocations w)"
proof -
  let ?f = "cache_path (cache_dir a) k"
  let ?w2 = "w\<lparr> log := log w @ [KeyDerived k, Exists ?f, Load ?f] \<rparr>"
  have "analyze a w d c cr = call_provider a ?w2 (Some ?f) d c cr"
    using assms by (auto simp add: analyze_def Let_def)
  moreover have "fst (analyze_code (ai_provider a) ?w2 d c cr)
                   = fst (analyze_code (ai_provider a) w d c cr)"
    by (rule analyze_code_result_log) simp
  moreover have "invocations ?w2 = invocations w"
    by (simp add: invocations_def)
  ultimately show ?thesis
    by (simp add: call_provider_result call_provider_invocations)
qed

text \<open>A miss on a store that refuses the write: the result is returned and nothing is stored.\<close>

lemma analyze_unwritable:
  assumes "cache_enabled a"
    and "generate_cache_key (ai_config a) d c cr = Inr k"
    and "files w (cache_path (cache_dir a) k) = None"
    and "fst (analyze_code (ai_provider a) w d c cr) = Inr res"
    and "\<not> dict_has res ''error''"
    and "\<not> write_ok w (cache_path (cache_dir a) k)"
  shows "analyze a w d c cr
           = (Inr (PDict res),
              w\<lparr> log := log w @ [KeyDerived k, Exists (cache_path (cache_dir a) k), Invoke,
                                 Dump (cache_path (cache_dir a) k)] \<rparr>)"
proof -
  let ?f = "cache_path (cache_dir a) k"
  let ?w1 = "w\<lparr> log := log w @ [KeyDerived k, Exists ?f] \<rparr>"
  have "fst (analyze_code (ai_provider a) ?w1 d c cr)
          = fst (analyze_code (ai_provider a) w d c cr)"
    by (rule analyze_code_result_log) simp
  with assms have same: "fst (analyze_code (ai_provider a) ?w1 d c cr) = Inr res"
    by simp
  have "analyze a w d c cr = call_provider a ?w1 (Some ?f) d c cr"
    using assms by (simp add: analyze_def Let_def)
  also have "\<dots> = (Inr (PDict res),
                   w\<lparr> log := log w @ [KeyDerived k, Exists ?f, Invoke, Dump ?f] \<rparr>)"
    using call_provider_success [OF same assms(5) assms(1), of ?f] assms(6) by simp
  finally show ?thesis .
qed

text \<open>
  Claim C1 says that on an empty store the first call of a request is a miss with one
  provider invocation and the second a hit with none, with equal results.  That needs the
  write of the first call to succeed: \<open>analyze\<close> catches the \<open>IOError\<close> of a failed write
  and goes on, and then the second call is a miss as well.  On a store that refuses
  writes the two calls invoke the provider twice.
\<close>

theorem cache_idempotence_counterexample:
  "cache_enabled analyzer_on
   \<and> dom (files world_readonly) = {}
   \<and> invocations world_readonly = 0
   \<and> fst (analyze_code (ai_provider analyzer_on) world_readonly small_diff None [''security''])
     = Inr [(''provider'', PStr ''openai''), (''model'', PStr ''gpt-4''),
            (''response_text'', PStr ''looks fine'')]
   \<and> \<not> dict_has [(''provider'', PStr ''openai''), (''model'', PStr ''gpt-4''),
                  (''response_text'', PStr ''looks fine'')] ''error''
   \<and> invocations (snd (analyze analyzer_on
                          (snd (analyze analyzer_on world_readonly small_diff None [''security'']))
                          small_diff None [''security''])) = 2"
proof -
  let ?res = "[(''provider'', PStr ''openai''), (''model'', PStr ''gpt-4''),
               (''response_text'', PStr ''looks fine'')]"
  obtain k where k: "generate_cache_key (ai_config analyzer_on) small_diff None [''security''] = Inr k"
    using cache_key_openai by (simp add: analyzer_on_def)
  let ?f = "cache_path (cache_dir analyzer_on) k"
  let ?w1 = "world_readonly\<lparr> log := log world_readonly @ [KeyDerived k, Exists ?f, Invoke, Dump ?f] \<rparr>"
  have en: "cache_enabled analyzer_on"
    by (simp add: analyzer_on_def)
  have start: "files world_readonly = Map.empty" "invocations world_readonly = 0"
    by (simp_all add: world_readonly_def world_ok_def invocations_def)
  have res: "fst (analyze_code (ai_provider analyzer_on) world_readonly small_diff None
                    [''security'']) = Inr ?res"
    by (rule analyze_code_looks_fine) (simp add: world_readonly_def)
  have ok: "\<not> dict_has ?res ''error''"
    by (simp add: dict_has_def)
  have ro: "\<not> write_ok world_readonly ?f"
    by (simp add: world_readonly_def)
  have first: "analyze analyzer_on world_readonly small_diff None [''security'']
                 = (Inr (PDict ?res), ?w1)"
    using analyze_unwritable [OF en k _ res ok ro] start by simp
  have res1: "fst (analyze_code (ai_provider analyzer_on) ?w1 small_diff None [''security''])
                = Inr ?res"
    by (rule analyze_code_looks_fine) (simp add: world_readonly_def)
  have "files ?w1 ?f = None" "\<not> write_ok ?w1 ?f"
    using start ro by simp_all
  from analyze_unwritable [OF en k this(1) res1 ok this(2)]
  have "invocations (snd (analyze analyzer_on ?w1 small_diff None [''security''])) = 2"
    using start by (simp add: invocations_def)
  with first en start res ok show ?thesis
    by simp
qed

text \<open>
  Claim C1, amended: with caching enabled, the store initially empty, a provider that
  returns a result without an \<open>error\<close> key, and a cache file that can be written, the
  first call derives the key, finds no entry, invokes the provider once and stores its
  result; the second call with the same arguments derives the key, finds and reads the
  entry, does not invoke the provider, and returns the same result.
\<close>

theorem cache_idempotence:
  assumes en: "cache_enabled a"
    and empty: "files w = Map.empty"
    and key: "generate_cache_key (ai_config a) diff ctx criteria = Inr k"
    and res: "fst (analyze_code (ai_provider a) w diff ctx criteria) = Inr res"
    and ok: "\<not> dict_has res ''error''"
    and wr: "write_ok w (cache_path (cache_dir a) k)"
  shows "fst (analyze a w diff ctx criteria) = Inr (PDict res)
         \<and> snd (analyze a w diff ctx criteria)
           = w\<lparr> log := log w @ [KeyDerived k, Exists (cache_path (cache_dir a) k), Invoke,
                                Dump (cache_path (cache_dir a) k)],
                files := [cache_path (cache_dir a) k \<mapsto> Json (PDict res)] \<rparr>
         \<and> invocations (snd (analyze a w diff ctx criteria)) = Suc (invocations w)
         \<and> fst (analyze a (snd (analyze a w diff ctx criteria)) diff ctx criteria)
           = fst (analyze a w diff ctx criteria)
         \<and> log (snd (analyze a (snd (analyze a w diff ctx criteria)) diff ctx criteria))
           = log (snd (analyze a w diff ctx criteria))
               @ [KeyDerived k, Exists (cache_path (cache_dir a) k), Load (cache_path (cache_dir a) k)]
         \<and> invocations (snd (analyze a (snd (analyze a w diff ctx criteria)) diff ctx criteria))
           = invocations (snd (analyze a w diff ctx criteria))"
proof -
  let ?f = "cache_path (cache_dir a) k"
  let ?w0 = "w\<lparr> log := log w @ [KeyDerived k, Exists ?f] \<rparr>"
  let ?w1 = "w\<lparr> log := log w @ [KeyDerived k, Exists ?f, Invoke, Dump ?f],
                files := [?f \<mapsto> Json (PDict res)] \<rparr>"
  have "fst (analyze_code (ai_provider a) ?w0 diff ctx criteria)
          = fst (analyze_code (ai_provider a) w diff ctx criteria)"
    by (rule analyze_code_result_log) simp
  with res have same: "fst (analyze_code (ai_provider a) ?w0 diff ctx criteria) = Inr res"
    by simp
  have "analyze a w diff ctx criteria = call_provider a ?w0 (Some ?f) diff ctx criteria"
    using en key empty by (simp add: analyze_def Let_def)
  also have "\<dots> = (Inr (PDict res), ?w1)"
    using call_provider_success [OF same ok en, of ?f] wr empty by simp
  finally have first: "analyze a w diff ctx criteria = (Inr (PDict res), ?w1)" .
  have "files ?w1 ?f = Some (Json (PDict res))"
    by simp
  from cache_hit_returns_stored [OF en key this]
  have second: "analyze a ?w1 diff ctx criteria
                  = (Inr (PDict res), ?w1\<lparr> log := log ?w1 @ [KeyDerived k, Exists ?f, Load ?f] \<rparr>)" .
  show ?thesis
    by (simp add: first second invocations_def)
qed

text \<open>The key of the example request, computed: it is the value \<open>hashlib\<close> gives.\<close>

lemma example_key_value:
  "generate_cache_key cfg_openai small_diff None [''security''] = Inr example_key"
  unfolding example_key_def by code_simp

theorem cache_idempotence_witness:
  "cache_enabled analyzer_on
   \<and> files world_ok = Map.empty
   \<and> generate_cache_key (ai_config analyzer_on) small_diff None [''security''] = Inr example_key
   \<and> fst (analyze_code (ai_provider analyzer_on) world_ok small_diff None [''security''])
     = Inr [(''provider'', PStr ''openai''), (''model'', PStr ''gpt-4''),
            (''response_text'', PStr ''looks fine'')]
   \<and> \<not> dict_has [(''provider'', PStr ''openai''), (''model'', PStr ''gpt-4''),
                  (''response_text'', PStr ''looks fine'')] ''error''
   \<and> write_ok world_ok example_file
   \<and> analyze analyzer_on world_ok small_diff None [''security'']
     = (Inr (PDict [(''provider'', PStr ''openai''), (''model'', PStr ''gpt-4''),
                    (''response_text'', PStr ''looks fine'')]),
        world_ok\<lparr> log := [KeyDerived example_key, Exists example_file, Invoke, Dump example_file],
                  files := [example_file
                              \<mapsto> Json (PDict [(''provider'', PStr ''openai''), (''model'', PStr ''gpt-4''),
                                               (''response_text'', PStr ''looks fine'')])] \<rparr>)
   \<and> fst (analyze analyzer_on
             (snd (analyze analyzer_on world_ok small_diff None [''security'']))
             small_diff None [''security''])
     = Inr (PDict [(''provider'', PStr ''openai''), (''model'', PStr ''gpt-4''),
                   (''response_text'', PStr ''looks fine'')])
   \<and> invocations (snd (analyze analyzer_on
                          (snd (analyze analyzer_on world_ok small_diff None [''security'']))
                          small_diff None [''security''])) = 1"
proof -
  have en: "cache_enabled analyzer_on"
    by (simp add: analyzer_on_def)
  have empty: "files world_ok = Map.empty"
    by (simp add: world_ok_def)
  have key: "generate_cache_key (ai_config analyzer_on) small_diff None [''security'']
               = Inr example_key"
    using example_key_value by (simp add: analyzer_on_def)
  have res: "fst (analyze_code (ai_provider analyzer_on) world_ok small_diff None [''security''])
               = Inr [(''provider'', PStr ''openai''), (''model'', PStr ''gpt-4''),
                      (''response_text'', PStr ''looks fine'')]"
    by (rule analyze_code_looks_fine) simp
  have ok: "\<not> dict_has [(''provider'', PStr ''openai''), (''model'', PStr ''gpt-4''),
                         (''response_text'', PStr ''looks fine'')] ''error''"
    by (simp add: dict_has_def)
  have path: "cache_path (cache_dir analyzer_on) example_key = example_file"
    by (simp add: example_file_def analyzer_on_def)
  have wr: "write_ok world_ok (cache_path (cache_dir analyzer_on) example_key)"
    by (simp add: world_ok_def)
  have start: "log world_ok = []" "invocations world_ok = 0"
    by (simp_all add: world_ok_def invocations_def)
  let ?run = "analyze analyzer_on world_ok small_diff None [''security'']"
  note c = cache_idempotence [OF en empty key res ok wr, unfolded path]
  note c1 = c [THEN conjunct1]
  note c2 = c [THEN conjunct2, THEN conjunct1]
  note c3 = c [THEN conjunct2, THEN conjunct2, THEN conjunct1]
  note c4 = c [THEN conjunct2, THEN conjunct2, THEN conjunct2, THEN conjunct1]
  note c6 = c [THEN conjunct2, THEN conjunct2, THEN conjunct2, THEN conjunct2, THEN conjunct2]
  have r1: "fst ?run = Inr (PDict [(''provider'', PStr ''openai''), (''model'', PStr ''gpt-4''),
                                   (''response_text'', PStr ''looks fine'')])"
    by (rule c1)
  have w1: "snd ?run
              = world_ok\<lparr> log := [KeyDerived example_key, Exists example_file, Invoke,
                                   Dump example_file],
                         files := [example_file
                                     \<mapsto> Json (PDict [(''provider'', PStr ''openai''),
                                                      (''model'', PStr ''gpt-4''),
                                                      (''response_text'', PStr ''looks fine'')])] \<rparr>"
    using c2 by (simp add: start(1))
  have i1: "invocations (snd ?run) = 1"
    using c3 by (simp add: start(2))
  have r2: "fst (analyze analyzer_on (snd ?run) small_diff None [''security'']) = fst ?run"
    by (rule c4)
  have i2: "invocations (snd (analyze analyzer_on (snd ?run) small_diff None [''security'']))
              = invocations (snd ?run)"
    by (rule c6)
  have run: "?run = (fst ?run, snd ?run)"
    by simp
  show ?thesis
    using en empty key res ok wr [unfolded path] run [unfolded r1 w1] r2 [unfolded r1]
      i2 [unfolded i1]
    by (simp only: simp_thms)
qed

text \<open>
  Claim C6 asks that an entry which is present but corrupted or unreadable is treated as a
  miss.  The read is guarded by \<open>except (json.JSONDecodeError, IOError)\<close>; a file whose
  bytes are not UTF-8 makes \<open>json.load\<close> raise \<open>UnicodeDecodeError\<close>, which is neither,
  so the call raises and the provider is never invoked.
\<close>

theorem undecodable_entry_raises:
  "files world_corrupt example_file = Some NotUtf8
   \<and> generate_cache_key (ai_config analyzer_on) small_diff None [''security''] = Inr example_key
   \<and> analyze analyzer_on world_corrupt small_diff None [''security'']
     = (Inl UnicodeDecodeError,
        world_corrupt\<lparr> log := [KeyDerived example_key, Exists example_file, Load example_file] \<rparr>)"
  using example_key_value
  by (simp add: analyze_def analyzer_on_def world_corrupt_def world_ok_def example_file_def
      Let_def)

section \<open>The comparison engine\<close>

lemma collect_filenames_filter:
  "collect_filenames (filter (\<lambda>l. header_match l \<noteq> None) ls) acc = collect_filenames ls acc"
  by (induction ls arbitrary: acc) (auto simp: Let_def split: option.splits)

lemma collect_filenames_set:
  "set (collect_filenames ls acc)
     = set acc \<union> {strip g | l g. l \<in> set ls \<and> header_match l = Some g \<and> strip g \<noteq> ''/dev/null''}"
  by (induction ls arbitrary: acc) (auto simp: Let_def split: option.splits)

lemma collect_filenames_distinct:
  "distinct acc \<Longrightarrow> distinct (collect_filenames ls acc)"
  by (induction ls arbitrary: acc) (auto simp: Let_def split: option.splits)

lemma parse_diff_filenames_sorted_distinct:
  "sorted (parse_diff_filenames d) \<and> distinct (parse_diff_filenames d)
   \<and> ''/dev/null'' \<notin> set (parse_diff_filenames d)"
  by (auto simp: parse_diff_filenames_def collect_filenames_distinct collect_filenames_set)

lemma four_headers:
  "sort (collect_filenames [''--- a/src/x.py'', ''+++ b/src/x.py'', ''--- a/dev/null'', ''+++ b/new.py''] [])
     = [''dev/null'', ''new.py'', ''src/x.py'']"
  by (simp add: header_match_def strip_def isspace_def less_eq_list_code)

lemma example_diff_lines:
  "split_lines example_diff
     = [''--- a/src/x.py'', ''+++ b/src/x.py'', ''--- a/dev/null'', ''+++ b/new.py'', []]"
  by (simp add: example_diff_def nl_def)

lemma example_diff_headers:
  "filter (\<lambda>l. header_match l \<noteq> None) (split_lines example_diff)
     = [''--- a/src/x.py'', ''+++ b/src/x.py'', ''--- a/dev/null'', ''+++ b/new.py'']"
  by (simp add: example_diff_lines header_match_def)

text \<open>
  Claim C8 gives \<open>{src/x.py, new.py}\<close> as the paths of a diff with the header lines
  \<open>--- a/src/x.py\<close>, \<open>+++ b/src/x.py\<close>, \<open>--- a/dev/null\<close> and \<open>+++ b/new.py\<close>.  The pattern
  strips \<open>a/\<close> from the third line and captures \<open>dev/null\<close>, which is not the sentinel
  \<open>/dev/null\<close> the loop compares with, so \<open>dev/null\<close> is returned as a third path.
\<close>

theorem header_paths_counterexample:
  "split_lines example_diff
     = [''--- a/src/x.py'', ''+++ b/src/x.py'', ''--- a/dev/null'', ''+++ b/new.py'', []]
   \<and> ''dev/null'' \<in> set (parse_diff_filenames example_diff)
   \<and> set (parse_diff_filenames example_diff) \<noteq> {''src/x.py'', ''new.py''}"
proof -
  have "parse_diff_filenames example_diff = [''dev/null'', ''new.py'', ''src/x.py'']"
    by (simp only: parse_diff_filenames_def example_diff_lines)
       (simp add: header_match_def strip_def isspace_def less_eq_list_code)
  then have mem: "''dev/null'' \<in> set (parse_diff_filenames example_diff)"
    by simp
  have "''dev/null'' \<notin> {''src/x.py'', ''new.py''}"
    by simp
  with mem have "set (parse_diff_filenames example_diff) \<noteq> {''src/x.py'', ''new.py''}"
    by (rule_tac notI) (simp only:)
  with mem show ?thesis
    by (simp only: example_diff_lines simp_thms)
qed

text \<open>
  Claim C8, amended: for a diff whose header lines are these four, the extraction returns
  the list \<open>dev/null\<close>, \<open>new.py\<close>, \<open>src/x.py\<close>: sorted, without duplicates, and without
  the path \<open>/dev/null\<close>, the only one the loop leaves out.
\<close>

theorem header_paths_of_example:
  assumes "filter (\<lambda>l. header_match l \<noteq> None) (split_lines diff_content)
             = [''--- a/src/x.py'', ''+++ b/src/x.py'', ''--- a/dev/null'', ''+++ b/new.py'']"
  shows "parse_diff_filenames diff_content = [''dev/null'', ''new.py'', ''src/x.py'']
         \<and> sorted (parse_diff_filenames diff_content) \<and> distinct (parse_diff_filenames diff_content)
         \<and> ''/dev/null'' \<notin> set (parse_diff_filenames diff_content)"
proof -
  have "parse_diff_filenames diff_content
          = sort (collect_filenames (filter (\<lambda>l. header_match l \<noteq> None) (split_lines diff_content)) [])"
    by (simp only: parse_diff_filenames_def collect_filenames_filter)
  then have "parse_diff_filenames diff_content = [''dev/null'', ''new.py'', ''src/x.py'']"
    by (simp only: assms four_headers)
  then show ?thesis
    using parse_diff_filenames_sorted_distinct [of diff_content] by simp
qed

theorem header_paths_of_example_witness:
  "filter (\<lambda>l. header_match l \<noteq> None) (split_lines example_diff)
     = [''--- a/src/x.py'', ''+++ b/src/x.py'', ''--- a/dev/null'', ''+++ b/new.py'']
   \<and> parse_diff_filenames example_diff = [''dev/null'', ''new.py'', ''src/x.py'']"
proof (rule conjI)
  show "filter (\<lambda>l. header_match l \<noteq> None) (split_lines example_diff)
          = [''--- a/src/x.py'', ''+++ b/src/x.py'', ''--- a/dev/null'', ''+++ b/new.py'']"
    by (rule example_diff_headers)
  show "parse_diff_filenames example_diff = [''dev/null'', ''new.py'', ''src/x.py'']"
    by (rule conjunct1 [OF header_paths_of_example [OF example_diff_headers]])
qed

subsection \<open>The test-coverage criterion\<close>

lemma any_directory_iff: "any_directory r xs \<longleftrightarrow> (\<exists>i \<in> set xs. directory_exists r i)"
  by (induction xs) auto

lemma any_marker_iff: "any_marker deps content \<longleftrightarrow> (\<exists>dep \<in> set deps. str_in dep (lower content))"
  by (induction deps) auto

lemma any_manifest_iff:
  "any_manifest r deps fs \<longleftrightarrow>
     (\<exists>f \<in> set fs. \<exists>content. read_file r f = Some content \<and> content \<noteq> []
        \<and> (\<exists>dep \<in> set deps. str_in dep (lower content)))"
  by (induction fs) (auto simp: any_marker_iff split: option.splits)

lemma remove1_single: "count_list xs x \<le> 1 \<Longrightarrow> x \<notin> set (remove1 x xs)"
proof (induction xs)
  case Nil
  then show ?case by simp
next
  case (Cons y ys)
  show ?case
  proof (cases "y = x")
    case True
    with Cons.prems have "count_list ys x = 0" by simp
    then have "x \<notin> set ys" by (simp add: count_list_0_iff)
    with True show ?thesis by simp
  next
    case False
    with Cons show ?thesis by simp
  qed
qed

text \<open>
  What \<open>_check_test_coverage_needed\<close> decides: the criterion is configured, and a test
  directory exists or the lower-cased, non-empty text of a manifest contains a marker.
\<close>

lemma check_test_coverage_needed_iff:
  "check_test_coverage_needed e r \<longleftrightarrow>
     ''test_coverage'' \<in> set (ai_focus_areas e)
     \<and> ((\<exists>i \<in> set (case test_indicators e of None \<Rightarrow> [''tests/'', ''test/''] | Some xs \<Rightarrow> xs).
            directory_exists r i)
        \<or> (\<exists>f \<in> set (find_files r ''**/requirements*.txt'' @ find_files r ''**/pyproject.toml'').
             \<exists>content. read_file r f = Some content \<and> content \<noteq> []
               \<and> (\<exists>dep \<in> set (case test_dependency_markers e of
                                   None \<Rightarrow> [''pytest'', ''unittest''] | Some xs \<Rightarrow> xs).
                     str_in dep (lower content))))"
  by (simp add: check_test_coverage_needed_def Let_def any_directory_iff any_manifest_iff
      del: set_append)

text \<open>
  Where \<open>test_coverage\<close> is configured at most once, the criteria handed to the analyzer
  contain it exactly when the check succeeds.
\<close>

lemma test_coverage_resolution:
  assumes "count_list (ai_focus_areas e) ''test_coverage'' \<le> 1"
  shows "''test_coverage'' \<in> set (current_criteria e r) \<longleftrightarrow> check_test_coverage_needed e r"
proof (cases "check_test_coverage_needed e r")
  case True
  then have "''test_coverage'' \<in> set (ai_focus_areas e)"
    by (simp add: check_test_coverage_needed_iff)
  with True show ?thesis
    by (simp add: current_criteria_def)
next
  case False
  then show ?thesis
    using remove1_single [OF assms] by (simp add: current_criteria_def Let_def)
qed

text \<open>
  Claim C9 asks that \<open>test_coverage\<close> is among the criteria handed to the analyzer only
  if a test directory or a test dependency was found.  \<open>list.remove\<close> takes out the first
  occurrence only: where the configuration lists \<open>test_coverage\<close> twice and the project
  has no tests, one occurrence stays.
\<close>

theorem duplicate_test_coverage_kept:
  "ai_focus_areas engine_twice = [''test_coverage'', ''security'', ''test_coverage'']
   \<and> \<not> check_test_coverage_needed engine_twice reader_bare
   \<and> current_criteria engine_twice reader_bare = [''security'', ''test_coverage'']"
  by (simp add: current_criteria_def check_test_coverage_needed_def engine_twice_def
      reader_bare_def)

end
